theory Spec2Isabelle
  imports Main "HOL-Library.Word"
begin

section \<open>The password generator of App.tsx\<close>

text \<open>
  The component \<open>App\<close> keeps its data in React state cells and has two functions that
  matter: \<open>generatePassword\<close>, which derives the alphabet from the four check boxes,
  fills a \<open>Uint32Array\<close> from \<open>window.crypto\<close> and assembles the password, and
  \<open>calculateStrength\<close>, which scores a string and stores one of four tiers.
  Strings are lists of characters with codes below 256, which covers every character of
  the four classes and so every password the generator hands to the classifier. The
  state cells are the fields of a record, a state setter is a record update, and an
  exception that leaves \<open>generatePassword\<close> is the left summand of its result.
\<close>

subsection \<open>State\<close>

datatype PasswordStrength = Weak | Medium | Strong | VeryStrong

text \<open>
  The \<open>useState\<close> cells of the component. The cell \<open>length\<close> is named \<open>length_st\<close>
  here; it starts at 16 and is only ever set from the range slider, whose values are whole
  numbers, so it is a natural number.
\<close>

record app_state =
  password :: string
  length_st :: nat
  includeUppercase :: bool
  includeLowercase :: bool
  includeNumbers :: bool
  includeSymbols :: bool
  copied :: bool
  strength :: PasswordStrength

definition setPassword :: "string \<Rightarrow> app_state \<Rightarrow> app_state" where
  "setPassword v st = st\<lparr>password := v\<rparr>"

definition setStrength :: "PasswordStrength \<Rightarrow> app_state \<Rightarrow> app_state" where
  "setStrength v st = st\<lparr>strength := v\<rparr>"

definition setIncludeUppercase :: "bool \<Rightarrow> app_state \<Rightarrow> app_state" where
  "setIncludeUppercase v st = st\<lparr>includeUppercase := v\<rparr>"

definition setIncludeLowercase :: "bool \<Rightarrow> app_state \<Rightarrow> app_state" where
  "setIncludeLowercase v st = st\<lparr>includeLowercase := v\<rparr>"

definition setIncludeNumbers :: "bool \<Rightarrow> app_state \<Rightarrow> app_state" where
  "setIncludeNumbers v st = st\<lparr>includeNumbers := v\<rparr>"

definition setIncludeSymbols :: "bool \<Rightarrow> app_state \<Rightarrow> app_state" where
  "setIncludeSymbols v st = st\<lparr>includeSymbols := v\<rparr>"

subsection \<open>The character classes and the alphabet\<close>

text \<open>The object literal \<open>charset\<close> of \<open>generatePassword\<close>, one constant per property.\<close>

definition charset_lowercase :: string where
  "charset_lowercase = ''abcdefghijklmnopqrstuvwxyz''"

definition charset_uppercase :: string where
  "charset_uppercase = ''ABCDEFGHIJKLMNOPQRSTUVWXYZ''"

definition charset_numbers :: string where
  "charset_numbers = ''0123456789''"

definition charset_symbols :: string where
  "charset_symbols = ''!@#$%^&*()_+-=[]{}|;:,.<>?''"

text \<open>
  The local variable \<open>characters\<close> after its four conditional appends: it starts empty
  and each enabled check box appends its class, in the order of the four \<open>if\<close> statements.
\<close>

definition characters :: "app_state \<Rightarrow> string" where
  "characters st =
     (let c0 = [];
          c1 = (if includeLowercase st then c0 @ charset_lowercase else c0);
          c2 = (if includeUppercase st then c1 @ charset_uppercase else c1);
          c3 = (if includeNumbers st then c2 @ charset_numbers else c2);
          c4 = (if includeSymbols st then c3 @ charset_symbols else c3)
      in c4)"

subsection \<open>The host: typed arrays and the random source\<close>

text \<open>
  \<open>generatePassword\<close> defines no exception of its own and catches none. What can leave
  it is what the host throws on line 52: a \<open>TypeError\<close> when evaluating
  \<open>window.crypto.getRandomValues\<close> finds no \<open>crypto\<close> object, and a
  \<open>QuotaExceededError\<close> when \<open>getRandomValues\<close> is asked for more than 65536 bytes
  at once. \<open>exn_name\<close> is the \<open>name\<close> property of the thrown object.
\<close>

datatype exn = TypeError | QuotaExceededError


text \<open>
  The global \<open>window\<close>: \<open>crypto\<close> is absent, or it is a source whose value at \<open>i\<close> is
  the 32-bit sample written to element \<open>i\<close> of the array being filled.
\<close>

record window =
  crypto :: "(nat \<Rightarrow> 32 word) option"

text \<open>
  \<open>new Uint32Array(n)\<close>: \<open>n\<close> elements, all zero. The constructor is taken to
  succeed; the \<open>RangeError\<close> an engine raises for a length it cannot allocate is left
  out, so a statement about which exception is thrown is made for lengths the slider can
  hold, which are at most 50.
\<close>

definition Uint32Array :: "nat \<Rightarrow> 32 word list" where
  "Uint32Array n = replicate n 0"

text \<open>
  \<open>window.crypto.getRandomValues(array)\<close> overwrites every element of the array in
  place; the model returns the filled array. Each element takes 4 bytes.
\<close>

definition getRandomValues :: "window \<Rightarrow> 32 word list \<Rightarrow> exn + 32 word list" where
  "getRandomValues w array =
     (case crypto w of
        None \<Rightarrow> Inl TypeError
      | Some src \<Rightarrow>
          if 4 * length array > 65536 then Inl QuotaExceededError
          else Inr (map src [0..<length array]))"

text \<open>
  \<open>s.charAt(k)\<close> is the one-character string at position \<open>k\<close>, and the empty string
  when \<open>k\<close> is not a position of \<open>s\<close>.
\<close>

definition charAt :: "string \<Rightarrow> nat \<Rightarrow> string" where
  "charAt s k = (if k < length s then [s ! k] else [])"

text \<open>
  The position \<open>array[i] % characters.length\<close> handed to \<open>charAt\<close>. A read beyond the
  array is \<open>undefined\<close>, and a zero divisor makes the remainder \<open>NaN\<close>; \<open>charAt\<close>
  takes either as position 0.
\<close>

definition sample_index :: "32 word list \<Rightarrow> nat \<Rightarrow> nat \<Rightarrow> nat" where
  "sample_index array i len =
     (if i < length array \<and> len \<noteq> 0 then unat (array ! i) mod len else 0)"

subsection \<open>calculateStrength\<close>

text \<open>
  The three regular expressions are single character classes, so a class is a list of
  inclusive ranges with a negation flag, and \<open>test\<close> asks whether some character of the
  string is matched.
\<close>

datatype regex = CharClass bool "(char \<times> char) list"

definition in_range :: "char \<Rightarrow> char \<times> char \<Rightarrow> bool" where
  "in_range c r = ((of_char (fst r) :: nat) \<le> of_char c \<and> (of_char c :: nat) \<le> of_char (snd r))"

fun class_matches :: "regex \<Rightarrow> char \<Rightarrow> bool" where
  "class_matches (CharClass negated ranges) c =
     (if negated then \<not> list_ex (in_range c) ranges else list_ex (in_range c) ranges)"

definition regex_test :: "regex \<Rightarrow> string \<Rightarrow> bool" where
  "regex_test re s = list_ex (class_matches re) s"

definition re_upper :: regex where
  "re_upper = CharClass False [(CHR ''A'', CHR ''Z'')]"

definition re_digit :: regex where
  "re_digit = CharClass False [(CHR ''0'', CHR ''9'')]"

definition re_other :: regex where
  "re_other = CharClass True [(CHR ''A'', CHR ''Z''), (CHR ''a'', CHR ''z''), (CHR ''0'', CHR ''9'')]"

text \<open>The local variable \<open>score\<close> after its five conditional increments.\<close>

definition score :: "string \<Rightarrow> nat" where
  "score pwd =
     (let s0 = 0;
          s1 = (if length pwd > 8 then s0 + 1 else s0);
          s2 = (if length pwd > 12 then s1 + 1 else s1);
          s3 = (if regex_test re_upper pwd then s2 + 1 else s2);
          s4 = (if regex_test re_digit pwd then s3 + 1 else s3);
          s5 = (if regex_test re_other pwd then s4 + 1 else s4)
      in s5)"

text \<open>The tier chosen by the \<open>if\<close>/\<open>else if\<close> chain on the score.\<close>

definition tier_of_score :: "nat \<Rightarrow> PasswordStrength" where
  "tier_of_score s =
     (if s \<le> 2 then Weak
      else if s = 3 then Medium
      else if s = 4 then Strong
      else VeryStrong)"

definition calculateStrength :: "string \<Rightarrow> app_state \<Rightarrow> app_state" where
  "calculateStrength pwd st = setStrength (tier_of_score (score pwd)) st"

subsection \<open>generatePassword\<close>

text \<open>
  The \<open>for\<close> loop of lines 54 to 56, with the loop variable \<open>i\<close> and the string built
  so far as arguments.
\<close>

function generate_loop :: "string \<Rightarrow> 32 word list \<Rightarrow> nat \<Rightarrow> nat \<Rightarrow> string \<Rightarrow> string" where
  "generate_loop chars array n i generatedPassword =
     (if i < n
      then generate_loop chars array n (Suc i)
             (generatedPassword @ charAt chars (sample_index array i (length chars)))
      else generatedPassword)"
  by pat_completeness auto
termination
  by (relation "measure (\<lambda>(chars, array, n, i, acc). n - i)") auto

declare generate_loop.simps [simp del]

text \<open>
  \<open>generatePassword\<close> reads the state it closed over and the host, and either throws
  or returns the state after its setter calls.
\<close>

definition generatePassword :: "window \<Rightarrow> app_state \<Rightarrow> exn + app_state" where
  "generatePassword w st =
     (let chars = characters st in
      if chars = [] then Inr (setPassword [] st)
      else
        (case getRandomValues w (Uint32Array (length_st st)) of
           Inl e \<Rightarrow> Inl e
         | Inr array \<Rightarrow>
             let generatedPassword = generate_loop chars array (length_st st) 0 []
             in Inr (calculateStrength generatedPassword (setPassword generatedPassword st))))"

subsection \<open>The specification's reading\<close>

text \<open>
  The alphabet in the specification's words: the class strings of the enabled categories,
  concatenated in the fixed order lowercase, uppercase, numbers, symbols. It is a function
  of the four switches alone.
\<close>

definition buildAlphabet_spec :: "bool \<Rightarrow> bool \<Rightarrow> bool \<Rightarrow> bool \<Rightarrow> string" where
  "buildAlphabet_spec useLowercase useUppercase useNumbers useSymbols =
     concat (map snd (filter fst
       [(useLowercase, charset_lowercase), (useUppercase, charset_uppercase),
        (useNumbers, charset_numbers), (useSymbols, charset_symbols)]))"

text \<open>
  The five scoring predicates in the specification's words. An uppercase letter is a
  character of the uppercase class, a digit a character of the numbers class, and a
  character outside \<open>[A-Za-z0-9]\<close> one that is in none of the three alphanumeric classes.
\<close>

definition contains_upper :: "string \<Rightarrow> bool" where
  "contains_upper pwd = (\<exists>c \<in> set pwd. c \<in> set charset_uppercase)"

definition contains_digit :: "string \<Rightarrow> bool" where
  "contains_digit pwd = (\<exists>c \<in> set pwd. c \<in> set charset_numbers)"

definition contains_other :: "string \<Rightarrow> bool" where
  "contains_other pwd =
     (\<exists>c \<in> set pwd. c \<notin> set (charset_uppercase @ charset_lowercase @ charset_numbers))"

definition score_spec :: "string \<Rightarrow> nat" where
  "score_spec pwd =
     of_bool (length pwd > 8) + of_bool (length pwd > 12) + of_bool (contains_upper pwd)
       + of_bool (contains_digit pwd) + of_bool (contains_other pwd)"

definition classify_spec :: "string \<Rightarrow> PasswordStrength" where
  "classify_spec pwd =
     (let s = score_spec pwd in
      if s \<le> 2 then Weak else if s = 3 then Medium else if s = 4 then Strong else VeryStrong)"

text \<open>The order of the tiers: weak, medium, strong, very strong.\<close>

fun tier_rank :: "PasswordStrength \<Rightarrow> nat" where
  "tier_rank Weak = 0"
| "tier_rank Medium = 1"
| "tier_rank Strong = 2"
| "tier_rank VeryStrong = 3"

subsection \<open>Sample inputs\<close>

text \<open>
  A host whose source writes 95, 1095, 2095, ... into the array, a host without
  \<open>crypto\<close>, the component's initial state with the slider at 6, and a state in which
  all four check boxes are off while the last tier shown was the highest.
\<close>

definition window_seq :: window where
  "window_seq = \<lparr>crypto = Some (\<lambda>i. of_nat (1000 * i + 95))\<rparr>"

definition window_no_crypto :: window where
  "window_no_crypto = \<lparr>crypto = None\<rparr>"

definition state_all_on :: app_state where
  "state_all_on =
     \<lparr>password = [], length_st = 6, includeUppercase = True, includeLowercase = True,
      includeNumbers = True, includeSymbols = True, copied = False, strength = Medium\<rparr>"

definition state_all_off :: app_state where
  "state_all_off =
     \<lparr>password = ''hN)pV}'', length_st = 6, includeUppercase = False, includeLowercase = False,
      includeNumbers = False, includeSymbols = False, copied = False, strength = VeryStrong\<rparr>"

section \<open>Auxiliary facts\<close>

subsection \<open>The alphabet\<close>

lemma characters_eq_spec:
  "characters st =
     buildAlphabet_spec (includeLowercase st) (includeUppercase st)
       (includeNumbers st) (includeSymbols st)"
  by (simp add: characters_def buildAlphabet_spec_def)

lemma charset_nonempty:
  "charset_lowercase \<noteq> []" "charset_uppercase \<noteq> []"
  "charset_numbers \<noteq> []" "charset_symbols \<noteq> []"
  by (simp_all add: charset_lowercase_def charset_uppercase_def charset_numbers_def
        charset_symbols_def)

lemma characters_empty_iff:
  "characters st = [] \<longleftrightarrow>
     \<not> includeLowercase st \<and> \<not> includeUppercase st \<and> \<not> includeNumbers st \<and> \<not> includeSymbols st"
  by (simp add: characters_def charset_nonempty)

subsection \<open>The loop\<close>

lemma generate_loop_concat:
  "generate_loop chars array n i acc =
     acc @ concat (map (\<lambda>j. charAt chars (sample_index array j (length chars))) [i..<n])"
proof (induction chars array n i acc rule: generate_loop.induct)
  case (1 chars array n i acc)
  show ?case
  proof (cases "i < n")
    case True
    with "1.IH" show ?thesis
      by (subst generate_loop.simps) (simp add: upt_conv_Cons)
  next
    case False
    then show ?thesis
      by (subst generate_loop.simps) simp
  qed
qed

lemma concat_singletons:
  "(\<And>x. x \<in> set xs \<Longrightarrow> g x = [f x]) \<Longrightarrow> concat (map g xs) = map f xs"
  by (induction xs) simp_all

lemma charAt_sample:
  assumes "chars \<noteq> []" and "j < length array"
  shows "charAt chars (sample_index array j (length chars)) =
           [chars ! (unat (array ! j) mod length chars)]"
  using assms by (simp add: charAt_def sample_index_def)

lemma generate_loop_map:
  assumes "chars \<noteq> []" and "n \<le> length array"
  shows "generate_loop chars array n 0 [] =
           map (\<lambda>j. chars ! (unat (array ! j) mod length chars)) [0..<n]"
proof -
  have "concat (map (\<lambda>j. charAt chars (sample_index array j (length chars))) [0..<n]) =
          map (\<lambda>j. chars ! (unat (array ! j) mod length chars)) [0..<n]"
    using assms by (intro concat_singletons charAt_sample) auto
  then show ?thesis
    by (simp add: generate_loop_concat)
qed

subsection \<open>The random source\<close>

lemma getRandomValues_length:
  "getRandomValues w array = Inr samples \<Longrightarrow> length samples = length array"
  by (auto simp: getRandomValues_def split: option.splits if_splits)

lemma getRandomValues_nth:
  "getRandomValues w array = Inr samples \<Longrightarrow> crypto w = Some src \<Longrightarrow> i < length array
     \<Longrightarrow> samples ! i = src i"
  by (auto simp: getRandomValues_def split: option.splits if_splits)

lemma generatePassword_success:
  assumes "characters st \<noteq> []"
    and "getRandomValues w (Uint32Array (length_st st)) = Inr samples"
  shows "generatePassword w st =
           Inr (calculateStrength
                  (map (\<lambda>j. characters st ! (unat (samples ! j) mod length (characters st)))
                     [0..<length_st st])
                  (setPassword
                     (map (\<lambda>j. characters st ! (unat (samples ! j) mod length (characters st)))
                        [0..<length_st st]) st))"
proof -
  have "length samples = length_st st"
    using getRandomValues_length [OF assms(2)] by (simp add: Uint32Array_def)
  then have "generate_loop (characters st) samples (length_st st) 0 [] =
               map (\<lambda>j. characters st ! (unat (samples ! j) mod length (characters st)))
                 [0..<length_st st]"
    using assms(1) by (intro generate_loop_map) simp_all
  then show ?thesis
    using assms by (simp add: generatePassword_def Let_def)
qed

lemma password_calculateStrength [simp]:
  "password (calculateStrength pwd st) = password st"
  by (simp add: calculateStrength_def setStrength_def)

lemma password_setPassword [simp]:
  "password (setPassword pwd st) = pwd"
  by (simp add: setPassword_def)

lemma strength_calculateStrength:
  "strength (calculateStrength pwd st) = tier_of_score (score pwd)"
  by (simp add: calculateStrength_def setStrength_def)

subsection \<open>The character classes of the classifier\<close>

lemma mem_iff_of_char:
  "c \<in> set s \<longleftrightarrow> (of_char c :: nat) \<in> set (map of_char s)"
  by auto

lemma class_upper_iff:
  "class_matches re_upper c \<longleftrightarrow> c \<in> set charset_uppercase"
  unfolding mem_iff_of_char [of c charset_uppercase]
  by (simp add: re_upper_def in_range_def charset_uppercase_def) arith

lemma class_digit_iff:
  "class_matches re_digit c \<longleftrightarrow> c \<in> set charset_numbers"
  unfolding mem_iff_of_char [of c charset_numbers]
  by (simp add: re_digit_def in_range_def charset_numbers_def) arith

lemma class_other_iff:
  "class_matches re_other c \<longleftrightarrow>
     c \<notin> set (charset_uppercase @ charset_lowercase @ charset_numbers)"
  unfolding mem_iff_of_char [of c "charset_uppercase @ charset_lowercase @ charset_numbers"]
  by (simp add: re_other_def in_range_def charset_numbers_def charset_uppercase_def
        charset_lowercase_def) arith

lemma regex_tests_spec:
  "regex_test re_upper pwd = contains_upper pwd"
  "regex_test re_digit pwd = contains_digit pwd"
  "regex_test re_other pwd = contains_other pwd"
  by (auto simp: regex_test_def contains_upper_def contains_digit_def contains_other_def
        list_ex_iff class_upper_iff class_digit_iff class_other_iff)

lemma score_eq_spec: "score pwd = score_spec pwd"
  by (simp add: score_def score_spec_def regex_tests_spec)

lemma tier_eq_spec: "tier_of_score (score pwd) = classify_spec pwd"
  by (simp add: tier_of_score_def classify_spec_def score_eq_spec)

lemma tier_of_score_mono: "a \<le> b \<Longrightarrow> tier_rank (tier_of_score a) \<le> tier_rank (tier_of_score b)"
  by (simp add: tier_of_score_def)

section \<open>Properties\<close>

subsection \<open>Generation with a non-empty alphabet\<close>

text \<open>
  C1. When at least one check box is on and the host delivers the samples for an array of
  \<open>length\<close> elements, \<open>generatePassword\<close> returns normally, and the password it stores
  has exactly \<open>length\<close> characters, each of them a character of the alphabet.
\<close>

theorem generatePassword_length_and_alphabet:
  assumes "includeLowercase st \<or> includeUppercase st \<or> includeNumbers st \<or> includeSymbols st"
    and "getRandomValues w (Uint32Array (length_st st)) = Inr samples"
  shows "\<exists>st'. generatePassword w st = Inr st' \<and>
           length (password st') = length_st st \<and>
           set (password st') \<subseteq> set (characters st)"
proof -
  from assms(1) have ne: "characters st \<noteq> []"
    by (auto simp: characters_empty_iff)
  let ?pw = "map (\<lambda>j. characters st ! (unat (samples ! j) mod length (characters st)))
               [0..<length_st st]"
  have run: "generatePassword w st = Inr (calculateStrength ?pw (setPassword ?pw st))"
    by (rule generatePassword_success [OF ne assms(2)])
  have "set ?pw \<subseteq> set (characters st)"
    using ne by auto
  with run show ?thesis
    by simp
qed

theorem generatePassword_length_and_alphabet_witness:
  "(includeLowercase state_all_on \<or> includeUppercase state_all_on \<or>
      includeNumbers state_all_on \<or> includeSymbols state_all_on) \<and>
   getRandomValues window_seq (Uint32Array (length_st state_all_on)) =
     Inr [95, 1095, 2095, 3095, 4095, 5095] \<and>
   (\<exists>st'. generatePassword window_seq state_all_on = Inr st' \<and>
      length (password st') = 6 \<and>
      set (password st') \<subseteq> set (characters state_all_on))"
proof -
  have h1: "includeLowercase state_all_on \<or> includeUppercase state_all_on \<or>
              includeNumbers state_all_on \<or> includeSymbols state_all_on"
    by (simp add: state_all_on_def)
  have h2: "getRandomValues window_seq (Uint32Array (length_st state_all_on)) =
              Inr [95, 1095, 2095, 3095, 4095, 5095]"
    by (simp add: getRandomValues_def window_seq_def Uint32Array_def state_all_on_def
          upt_conv_Cons)
  have "length_st state_all_on = 6"
    by (simp add: state_all_on_def)
  with generatePassword_length_and_alphabet [OF h1 h2] h1 h2 show ?thesis
    by simp
qed

text \<open>
  C5. With a non-empty alphabet and the samples delivered, the password has one character
  per sample, and for every position \<open>i\<close> that character is the alphabet's character at
  index \<open>r mod\<close> the alphabet's length, where \<open>r\<close> is element \<open>i\<close> of the filled
  array, the \<open>i\<close>-th value of the source. Every sample is used as it comes.
\<close>

theorem password_char_is_sample_mod:
  assumes "characters st \<noteq> []"
    and "getRandomValues w (Uint32Array (length_st st)) = Inr samples"
  shows "\<exists>st' src. crypto w = Some src \<and> generatePassword w st = Inr st' \<and>
           length (password st') = length_st st \<and>
           (\<forall>i < length_st st.
              samples ! i = src i \<and>
              password st' ! i =
                characters st ! (unat (samples ! i) mod length (characters st)))"
proof -
  let ?pw = "map (\<lambda>j. characters st ! (unat (samples ! j) mod length (characters st)))
               [0..<length_st st]"
  have run: "generatePassword w st = Inr (calculateStrength ?pw (setPassword ?pw st))"
    by (rule generatePassword_success [OF assms])
  obtain src where src: "crypto w = Some src"
    using assms(2) by (auto simp: getRandomValues_def split: option.splits)
  have "\<forall>i < length_st st. samples ! i = src i"
    using getRandomValues_nth [OF assms(2) src] by (simp add: Uint32Array_def)
  with run src show ?thesis
    by simp
qed

theorem password_char_is_sample_mod_witness:
  "characters state_all_on \<noteq> [] \<and>
   getRandomValues window_seq (Uint32Array (length_st state_all_on)) =
     Inr [95, 1095, 2095, 3095, 4095, 5095] \<and>
   (\<exists>st' src. crypto window_seq = Some src \<and>
      generatePassword window_seq state_all_on = Inr st' \<and>
      length (password st') = length_st state_all_on \<and>
      (\<forall>i < length_st state_all_on.
         [95, 1095, 2095, 3095, 4095, 5095] ! i = src i \<and>
         password st' ! i =
           characters state_all_on !
             (unat ([95, 1095, 2095, 3095, 4095, 5095 :: 32 word] ! i)
                mod length (characters state_all_on))))"
proof -
  have h1: "characters state_all_on \<noteq> []"
    by (simp add: characters_empty_iff state_all_on_def)
  have h2: "getRandomValues window_seq (Uint32Array (length_st state_all_on)) =
              Inr [95, 1095, 2095, 3095, 4095, 5095]"
    by (simp add: getRandomValues_def window_seq_def Uint32Array_def state_all_on_def
          upt_conv_Cons)
  from password_char_is_sample_mod [OF h1 h2] h1 h2 show ?thesis
    by blast
qed

subsection \<open>Generation with every check box off\<close>

text \<open>
  C3. When all four check boxes are off, \<open>generatePassword\<close> returns normally whatever
  the host is, and the password it stores is the empty string.
\<close>

theorem generatePassword_all_disabled_empty:
  assumes "\<not> includeLowercase st" and "\<not> includeUppercase st"
    and "\<not> includeNumbers st" and "\<not> includeSymbols st"
  shows "\<exists>st'. generatePassword w st = Inr st' \<and> password st' = []"
proof -
  from assms have "characters st = []"
    by (simp add: characters_empty_iff)
  then have "generatePassword w st = Inr (setPassword [] st)"
    by (simp add: generatePassword_def)
  then show ?thesis
    by simp
qed

theorem generatePassword_all_disabled_empty_witness:
  "\<not> includeLowercase state_all_off \<and> \<not> includeUppercase state_all_off \<and>
   \<not> includeNumbers state_all_off \<and> \<not> includeSymbols state_all_off \<and>
   (\<exists>st'. generatePassword window_no_crypto state_all_off = Inr st' \<and> password st' = [])"
proof -
  have h: "\<not> includeLowercase state_all_off" "\<not> includeUppercase state_all_off"
    "\<not> includeNumbers state_all_off" "\<not> includeSymbols state_all_off"
    by (simp_all add: state_all_off_def)
  from generatePassword_all_disabled_empty [OF h] h show ?thesis
    by simp
qed

text \<open>
  C10. When all four check boxes are off, \<open>generatePassword\<close> sets the password to the
  empty string and changes nothing else: \<open>calculateStrength\<close> is not reached, so the
  tier stays what it was.
\<close>

theorem generatePassword_all_disabled_keeps_strength:
  assumes "\<not> includeLowercase st" and "\<not> includeUppercase st"
    and "\<not> includeNumbers st" and "\<not> includeSymbols st"
  shows "\<exists>st'. generatePassword w st = Inr st' \<and> st' = st\<lparr>password := []\<rparr> \<and>
           strength st' = strength st"
proof -
  from assms have "characters st = []"
    by (simp add: characters_empty_iff)
  then show ?thesis
    by (simp add: generatePassword_def setPassword_def)
qed

theorem generatePassword_all_disabled_keeps_strength_witness:
  "\<not> includeLowercase state_all_off \<and> \<not> includeUppercase state_all_off \<and>
   \<not> includeNumbers state_all_off \<and> \<not> includeSymbols state_all_off \<and>
   (\<exists>st'. generatePassword window_seq state_all_off = Inr st' \<and>
      password st' = [] \<and> strength st' = VeryStrong \<and>
      strength (calculateStrength (password st') st') = Weak)"
proof -
  have h: "\<not> includeLowercase state_all_off" "\<not> includeUppercase state_all_off"
    "\<not> includeNumbers state_all_off" "\<not> includeSymbols state_all_off"
    by (simp_all add: state_all_off_def)
  obtain st' where run: "generatePassword window_seq state_all_off = Inr st'"
    and st': "st' = state_all_off\<lparr>password := []\<rparr>" "strength st' = strength state_all_off"
    using generatePassword_all_disabled_keeps_strength [OF h] by blast
  have "password st' = []" "strength st' = VeryStrong"
    using st' by (simp_all add: state_all_off_def)
  moreover have "strength (calculateStrength [] st') = Weak"
    by (simp add: strength_calculateStrength score_def tier_of_score_def regex_test_def)
  ultimately show ?thesis
    using h run by simp
qed

subsection \<open>The random source is missing\<close>




subsection \<open>The alphabet\<close>

text \<open>
  C4. The alphabet is the concatenation of the class strings of the enabled categories in
  the order lowercase, uppercase, numbers, symbols. It depends on the four switches only:
  two states that agree on them have the same alphabet. With exactly lowercase and numbers
  on it is the lowercase string followed by the numbers string, and turning these two on
  in either order, from a state with uppercase and symbols off, gives that same alphabet.
\<close>

theorem characters_fixed_order:
  "characters st =
     buildAlphabet_spec (includeLowercase st) (includeUppercase st)
       (includeNumbers st) (includeSymbols st) \<and>
   (includeLowercase t = includeLowercase st \<and> includeUppercase t = includeUppercase st \<and>
    includeNumbers t = includeNumbers st \<and> includeSymbols t = includeSymbols st
      \<longrightarrow> characters t = characters st) \<and>
   (includeLowercase st \<and> \<not> includeUppercase st \<and> includeNumbers st \<and> \<not> includeSymbols st
      \<longrightarrow> characters st = charset_lowercase @ charset_numbers) \<and>
   (\<not> includeUppercase st \<and> \<not> includeSymbols st
      \<longrightarrow> characters (setIncludeNumbers True (setIncludeLowercase True st)) =
            charset_lowercase @ charset_numbers \<and>
          characters (setIncludeLowercase True (setIncludeNumbers True st)) =
            charset_lowercase @ charset_numbers)"
  by (simp add: characters_eq_spec buildAlphabet_spec_def setIncludeNumbers_def
        setIncludeLowercase_def)

theorem characters_fixed_order_witness:
  "characters state_all_off = buildAlphabet_spec False False False False \<and>
   characters (state_all_off\<lparr>length_st := 20\<rparr>) = characters state_all_off \<and>
   characters (setIncludeNumbers True (setIncludeLowercase True state_all_off)) =
     ''abcdefghijklmnopqrstuvwxyz0123456789'' \<and>
   characters (setIncludeLowercase True (setIncludeNumbers True state_all_off)) =
     ''abcdefghijklmnopqrstuvwxyz0123456789''"
  using characters_fixed_order [of state_all_off "state_all_off\<lparr>length_st := 20\<rparr>"]
    characters_fixed_order
      [of "setIncludeNumbers True (setIncludeLowercase True state_all_off)" state_all_off]
  by (simp add: state_all_off_def charset_lowercase_def charset_numbers_def
        setIncludeNumbers_def setIncludeLowercase_def)

subsection \<open>The strength classifier\<close>

text \<open>
  C2. The tier \<open>calculateStrength\<close> stores is the one the reference scoring gives:
  one point each for length above 8, length above 12, an uppercase letter, a digit and a
  character outside \<open>[A-Za-z0-9]\<close>, then weak up to 2 points, medium at 3, strong at 4
  and very strong from 5. The four listed passwords get weak, weak, medium and very strong.
\<close>

theorem calculateStrength_is_classify:
  "strength (calculateStrength pwd st) = classify_spec pwd \<and>
   strength (calculateStrength ''abcdefg'' st) = Weak \<and>
   strength (calculateStrength ''Abcdefghi'' st) = Weak \<and>
   strength (calculateStrength ''Abcdefghi1'' st) = Medium \<and>
   strength (calculateStrength ''Abcdefghijkl1!'' st) = VeryStrong"
proof -
  have "strength (calculateStrength pwd st) = classify_spec pwd"
    by (simp add: strength_calculateStrength tier_eq_spec)
  moreover have "strength (calculateStrength ''abcdefg'' st) = Weak"
    by (simp add: strength_calculateStrength score_def tier_of_score_def regex_test_def
          re_upper_def re_digit_def re_other_def in_range_def)
  moreover have "strength (calculateStrength ''Abcdefghi'' st) = Weak"
    by (simp add: strength_calculateStrength score_def tier_of_score_def regex_test_def
          re_upper_def re_digit_def re_other_def in_range_def)
  moreover have "strength (calculateStrength ''Abcdefghi1'' st) = Medium"
    by (simp add: strength_calculateStrength score_def tier_of_score_def regex_test_def
          re_upper_def re_digit_def re_other_def in_range_def)
  moreover have "strength (calculateStrength ''Abcdefghijkl1!'' st) = VeryStrong"
    by (simp add: strength_calculateStrength score_def tier_of_score_def regex_test_def
          re_upper_def re_digit_def re_other_def in_range_def)
  ultimately show ?thesis
    by blast
qed

theorem calculateStrength_is_classify_witness:
  "strength (calculateStrength ''Abcdefghijk1'' state_all_on) = classify_spec ''Abcdefghijk1'' \<and>
   classify_spec ''Abcdefghijk1'' = Medium"
proof -
  have "classify_spec ''Abcdefghijk1'' = Medium"
    by (simp add: classify_spec_def score_spec_def contains_upper_def contains_digit_def
          contains_other_def charset_uppercase_def charset_lowercase_def charset_numbers_def)
  with calculateStrength_is_classify [of "''Abcdefghijk1''" state_all_on] show ?thesis
    by simp
qed

text \<open>
  C8. Lowercase letters earn nothing: two strings of the same length that agree on
  containing an uppercase letter, on containing a digit and on containing a character
  outside \<open>[A-Za-z0-9]\<close> get the same tier, whatever the states they are scored in.
\<close>

theorem calculateStrength_ignores_lowercase:
  assumes "length p = length q"
    and "contains_upper p = contains_upper q"
    and "contains_digit p = contains_digit q"
    and "contains_other p = contains_other q"
  shows "strength (calculateStrength p st) = strength (calculateStrength q st')"
  using assms by (simp add: strength_calculateStrength score_eq_spec score_spec_def)

theorem calculateStrength_ignores_lowercase_witness:
  "length ''ABCDEFGH1!'' = length ''abcdefgH1!'' \<and>
   contains_upper ''ABCDEFGH1!'' = contains_upper ''abcdefgH1!'' \<and>
   contains_digit ''ABCDEFGH1!'' = contains_digit ''abcdefgH1!'' \<and>
   contains_other ''ABCDEFGH1!'' = contains_other ''abcdefgH1!'' \<and>
   strength (calculateStrength ''ABCDEFGH1!'' state_all_on) =
     strength (calculateStrength ''abcdefgH1!'' state_all_off)"
proof -
  have h1: "length ''ABCDEFGH1!'' = length ''abcdefgH1!''"
    by simp
  have h2: "contains_upper ''ABCDEFGH1!'' = contains_upper ''abcdefgH1!''"
    by (simp add: contains_upper_def charset_uppercase_def)
  have h3: "contains_digit ''ABCDEFGH1!'' = contains_digit ''abcdefgH1!''"
    by (simp add: contains_digit_def charset_numbers_def)
  have h4: "contains_other ''ABCDEFGH1!'' = contains_other ''abcdefgH1!''"
    by (simp add: contains_other_def charset_uppercase_def charset_lowercase_def
          charset_numbers_def)
  from calculateStrength_ignores_lowercase [OF h1 h2 h3 h4] h1 h2 h3 h4 show ?thesis
    by blast
qed

text \<open>
  C9. The tier depends on the string alone, not on the state it is scored in, and it
  does not decrease when the score grows: if the score of \<open>q\<close> under the five predicates
  is at most that of \<open>p\<close>, the tier of \<open>q\<close> is at most the tier of \<open>p\<close> in the order
  weak, medium, strong, very strong.
\<close>

theorem calculateStrength_pure_and_monotone:
  "strength (calculateStrength p st) = strength (calculateStrength p st') \<and>
   (score_spec q \<le> score_spec p \<longrightarrow>
      tier_rank (strength (calculateStrength q st)) \<le>
        tier_rank (strength (calculateStrength p st')))"
  by (simp add: strength_calculateStrength score_eq_spec tier_of_score_mono)

theorem calculateStrength_pure_and_monotone_witness:
  "score_spec ''abcdefghi1'' \<le> score_spec ''Abcdefghijkl1'' \<and>
   strength (calculateStrength ''abcdefghi1'' state_all_on) = Weak \<and>
   strength (calculateStrength ''Abcdefghijkl1'' state_all_off) = Strong \<and>
   tier_rank (strength (calculateStrength ''abcdefghi1'' state_all_on)) \<le>
     tier_rank (strength (calculateStrength ''Abcdefghijkl1'' state_all_off))"
proof -
  have h: "score_spec ''abcdefghi1'' \<le> score_spec ''Abcdefghijkl1''"
    by (simp add: score_spec_def contains_upper_def contains_digit_def contains_other_def
          charset_uppercase_def charset_lowercase_def charset_numbers_def)
  have q: "strength (calculateStrength ''abcdefghi1'' state_all_on) = Weak"
    by (simp add: strength_calculateStrength score_def tier_of_score_def regex_test_def
          re_upper_def re_digit_def re_other_def in_range_def)
  have p: "strength (calculateStrength ''Abcdefghijkl1'' state_all_off) = Strong"
    by (simp add: strength_calculateStrength score_def tier_of_score_def regex_test_def
          re_upper_def re_digit_def re_other_def in_range_def)
  from calculateStrength_pure_and_monotone
         [of "''Abcdefghijkl1''" state_all_on state_all_off "''abcdefghi1''"] h q p
  show ?thesis
    by blast
qed

subsection \<open>The symbols class\<close>

text \<open>
  C6 (as the code has it). The symbols class is the literal string
  \<open>!@#$%^&*()_+-=[]{}|;:,.<>?\<close>, and that string has exactly 26 characters.
\<close>

theorem charset_symbols_literal_26:
  "charset_symbols = ''!@#$%^&*()_+-=[]{}|;:,.<>?'' \<and> length charset_symbols = 26"
  by (simp add: charset_symbols_def)

text \<open>
  C6 (as stated) fails on its count: the symbols class does not have 27 characters.
\<close>

theorem charset_symbols_not_27:
  "length charset_symbols \<noteq> 27"
  by (simp add: charset_symbols_def)

end
